theory Spec2Isabelle
  imports Complex_Main "HOL-Library.Sublist"
begin

section \<open>Values exchanged with the browser and the backend\<close>

text \<open>
  A JavaScript number is a finite value, one of the two infinities, or NaN. Finite values
  are taken as reals: rounding of IEEE doubles is not modelled.
\<close>

datatype number = Finite real | PosInfinity | NegInfinity | NaN

text \<open>
  The primitive values a JSON field that the component treats as a number can carry.
\<close>

datatype jsval = JSUndefined | JSNull | JSBoolean bool | JSNumber number | JSString string

text \<open>Truthiness (\<open>ToBoolean\<close>) of a primitive value.\<close>

fun truthy :: "jsval \<Rightarrow> bool" where
  "truthy JSUndefined = False"
| "truthy JSNull = False"
| "truthy (JSBoolean b) = b"
| "truthy (JSNumber (Finite r)) = (r \<noteq> 0)"
| "truthy (JSNumber NaN) = False"
| "truthy (JSNumber _) = True"
| "truthy (JSString s) = (s \<noteq> [])"

text \<open>\<open>a || b\<close> on primitive values.\<close>

definition or_else :: "jsval \<Rightarrow> jsval \<Rightarrow> jsval" where
  "or_else a b = (if truthy a then a else b)"

text \<open>
  A field that holds a string or is missing (\<open>undefined\<close> or \<open>null\<close>) is a
  \<open>string option\<close>. It is truthy when it holds a non-empty string.
\<close>

definition truthy_str :: "string option \<Rightarrow> bool" where
  "truthy_str v = (case v of None \<Rightarrow> False | Some s \<Rightarrow> s \<noteq> [])"

text \<open>\<open>a || "literal"\<close> where \<open>a\<close> is a string or missing.\<close>

definition str_or :: "string option \<Rightarrow> string \<Rightarrow> string" where
  "str_or v d = (case v of None \<Rightarrow> d | Some s \<Rightarrow> if s = [] then d else s)"

text \<open>\<open>timeRemaining >= 0\<close> on a number: false for NaN.\<close>

fun ge_zero :: "number \<Rightarrow> bool" where
  "ge_zero (Finite r) = (0 \<le> r)"
| "ge_zero PosInfinity = True"
| "ge_zero NegInfinity = False"
| "ge_zero NaN = False"

text \<open>A thrown JavaScript \<open>Error\<close>, with its \<open>message\<close>.\<close>

datatype js_error = Error (message: string)

text \<open>A \<open>File\<close> picked in a file input.\<close>

record File =
  name :: string
  file_size :: nat

datatype fileType = Anki | Study

text \<open>\<open>String.prototype.endsWith\<close>.\<close>

definition endsWith :: "string \<Rightarrow> string \<Rightarrow> bool" where
  "endsWith s t = (length t \<le> length s \<and> drop (length s - length t) s = t)"

subsection \<open>The tag sanitizer\<close>

text \<open>
  The character class \<open>[a-zA-Z0-9]\<close> of the regular expression in \<open>handleTagChange\<close>,
  as its three ranges over character codes.
\<close>

definition in_range :: "char \<Rightarrow> char \<Rightarrow> char \<Rightarrow> bool" where
  "in_range lo hi c = ((of_char lo :: nat) \<le> of_char c \<and> (of_char c :: nat) \<le> of_char hi)"

definition alnum_class :: "char \<Rightarrow> bool" where
  "alnum_class c =
     (in_range CHR ''a'' CHR ''z'' c \<or> in_range CHR ''A'' CHR ''Z'' c \<or> in_range CHR ''0'' CHR ''9'' c)"

text \<open>
  \<open>value.replace(/[^a-zA-Z0-9]/g, "_")\<close>: a left-to-right scan that replaces every match
  of the negated class, one character long, by the replacement text.
\<close>

fun replace_non_alnum :: "string \<Rightarrow> string \<Rightarrow> string" where
  "replace_non_alnum [] rep = []"
| "replace_non_alnum (c # cs) rep =
     (if \<not> alnum_class c then rep @ replace_non_alnum cs rep
      else c # replace_non_alnum cs rep)"

text \<open>The letters and digits, written out.\<close>

definition alphanumerics :: "char set" where
  "alphanumerics = set (''abcdefghijklmnopqrstuvwxyz'' @ ''ABCDEFGHIJKLMNOPQRSTUVWXYZ'' @ ''0123456789'')"

text \<open>Decimal rendering of a natural number, as a template literal renders an HTTP status.\<close>

fun show_nat :: "nat \<Rightarrow> string" where
  "show_nat n =
     (if n < 10 then [''0123456789'' ! n]
      else show_nat (n div 10) @ [''0123456789'' ! (n mod 10)])"

declare show_nat.simps [simp del]

text \<open>\<open>String.prototype.includes\<close>.\<close>

fun str_includes :: "string \<Rightarrow> string \<Rightarrow> bool" where
  "str_includes [] t = (t = [])"
| "str_includes (c # cs) t = (take (length t) (c # cs) = t \<or> str_includes cs t)"

section \<open>JSON bodies and HTTP responses\<close>

record statistics =
  total_cards :: nat
  high_relevance :: nat
  medium_relevance :: nat
  low_relevance :: nat

text \<open>The nested \<open>progress_data\<close> object of a status body.\<close>

record progress_data =
  pd_progress :: jsval
  phase :: "string option"
  estimated_time_remaining :: jsval

text \<open>
  A parsed JSON body, with the fields the component reads. A field that is read as a
  string is a \<open>string option\<close> (\<open>None\<close> when missing or \<open>null\<close>), an object field
  is an option of its record, a field read as a number is a \<open>jsval\<close>. The top-level
  fields \<open>progress\<close> and \<open>error\<close> are named \<open>progress_field\<close> and \<open>error_field\<close>.
\<close>

record response =
  status :: "string option"
  task_id :: "string option"
  download_url :: "string option"
  error_message :: "string option"
  progress_data :: "progress_data option"
  statistics :: "statistics option"
  progress_field :: jsval
  current_phase :: "string option"
  estimated_time :: jsval
  error_field :: "string option"
  detail :: "string option"

text \<open>
  What \<open>fetch\<close> resolves to. \<open>body_text\<close> is the outcome of \<open>response.text()\<close> and
  \<open>body_json\<close> the outcome of reading the same body as JSON (\<open>response.json()\<close>, or
  \<open>JSON.parse\<close> of the text): \<open>Inl e\<close> when that fails with \<open>e\<close>. A body that parses
  to \<open>null\<close> is counted as \<open>Inl\<close>: the first property read of it throws a TypeError.
\<close>

record http_response =
  http_status :: nat
  content_type :: "string option"
  body_text :: "js_error + string"
  body_json :: "js_error + response"

text \<open>\<open>response.ok\<close>.\<close>

definition ok :: "http_response \<Rightarrow> bool" where
  "ok r = (200 \<le> http_status r \<and> http_status r \<le> 299)"

text \<open>The outcome of awaiting \<open>fetch\<close>: \<open>Inl e\<close> when the promise rejects with \<open>e\<close>.\<close>

type_synonym fetch_result = "js_error + http_response"

text \<open>The multipart form posted to \<open>/api/process-deck/\<close>.\<close>

record formData =
  anki_file :: File
  study_material :: File
  custom_tag :: string
  model :: string

section \<open>Component state\<close>

text \<open>
  The \<open>useState\<close> cells of \<open>App\<close>. The first eleven are those of the JavaScript variant
  of the component; the TypeScript variant (\<open>App.tsx\<close>) adds two.
\<close>

record app_js_state =
  ankiFile :: "File option"
  studyMaterial :: "File option"
  processing :: bool
  progress :: jsval
  error :: "string option"
  success :: "string option"
  estimatedTime :: jsval
  jobId :: "string option"
  currentPhase :: "string option"
  customTag :: string
  selectedModel :: string

record app_state = app_js_state +
  processingResults :: "response option"
  showResults :: bool

text \<open>The state at mount: the arguments of the \<open>useState\<close> calls.\<close>

definition mount_js :: app_js_state where
  "mount_js = \<lparr> ankiFile = None, studyMaterial = None, processing = False,
     progress = JSNumber (Finite 0), error = None, success = None, estimatedTime = JSNull,
     jobId = None, currentPhase = None, customTag = [],
     selectedModel = ''text-embedding-3-small'' \<rparr>"

definition mount :: app_state where
  "mount = \<lparr> ankiFile = None, studyMaterial = None, processing = False,
     progress = JSNumber (Finite 0), error = None, success = None, estimatedTime = JSNull,
     jobId = None, currentPhase = None, customTag = [],
     selectedModel = ''text-embedding-3-small'',
     processingResults = None, showResults = False \<rparr>"

section \<open>Handlers shared by both variants\<close>

definition resetState :: "'a app_js_state_scheme \<Rightarrow> 'a app_js_state_scheme" where
  "resetState st = st\<lparr> ankiFile := None, studyMaterial := None,
     progress := JSNumber (Finite 0), error := None, success := None,
     estimatedTime := JSNull, jobId := None, currentPhase := None, customTag := [] \<rparr>"

definition handleTagChange :: "string \<Rightarrow> 'a app_js_state_scheme \<Rightarrow> 'a app_js_state_scheme" where
  "handleTagChange v st = (let sanitizedTag = replace_non_alnum v ''_'' in st\<lparr> customTag := sanitizedTag \<rparr>)"

definition handleModelChange :: "string \<Rightarrow> 'a app_js_state_scheme \<Rightarrow> 'a app_js_state_scheme" where
  "handleModelChange v st = st\<lparr> selectedModel := v \<rparr>"

section \<open>The TypeScript variant, \<open>App.tsx\<close>\<close>

subsection \<open>File selection\<close>

text \<open>
  \<open>handleFileUpload\<close>: the first argument is \<open>event.target.files?.[0]\<close>, \<open>None\<close> when
  the input holds no file.
\<close>

definition handleFileUpload :: "File option \<Rightarrow> fileType \<Rightarrow> app_state \<Rightarrow> app_state" where
  "handleFileUpload file fileType st =
     (let st1 = st\<lparr> error := None, success := None \<rparr> in
      case file of
        None \<Rightarrow> st1
      | Some f \<Rightarrow>
          (case fileType of
             Anki \<Rightarrow>
               if \<not> endsWith (name f) ''.apkg''
               then st1\<lparr> error := Some ''Please upload a valid Anki deck file (.apkg)'' \<rparr>
               else st1\<lparr> ankiFile := Some f \<rparr>
           | Study \<Rightarrow>
               if \<not> endsWith (name f) ''.pdf''
               then st1\<lparr> error := Some ''Please upload a PDF study material'' \<rparr>
               else st1\<lparr> studyMaterial := Some f \<rparr>))"

subsection \<open>Submission\<close>

text \<open>
  \<open>handleSubmit\<close> up to its \<open>await fetch\<close>: the two validation returns, then the setters
  that precede the request. The second component is the form that is posted to
  \<open>/api/process-deck/\<close>, \<open>None\<close> when the handler returns without a request.
\<close>

definition handleSubmit :: "app_state \<Rightarrow> app_state \<times> formData option" where
  "handleSubmit st =
     (case (ankiFile st, studyMaterial st) of
        (Some a, Some s) \<Rightarrow>
          if customTag st = [] then
            (st\<lparr> error := Some ''Please enter a tag prefix for your cards'' \<rparr>, None)
          else
            (st\<lparr> processing := True, progress := JSNumber (Finite 0), error := None,
                 success := None, currentPhase := Some ''Initializing'', showResults := False,
                 processingResults := None, estimatedTime := JSNull \<rparr>,
             Some \<lparr> anki_file = a, study_material = s, custom_tag = customTag st,
                    model = selectedModel st \<rparr>)
      | _ \<Rightarrow> (st\<lparr> error := Some ''Please upload both an Anki deck and study material'' \<rparr>, None))"

text \<open>The \<open>catch (err)\<close> block of \<open>handleSubmit\<close>; every value thrown there is an \<open>Error\<close>.\<close>

definition handleSubmit_catch :: "js_error \<Rightarrow> app_state \<Rightarrow> app_state" where
  "handleSubmit_catch err st = st\<lparr> error := Some (message err), processing := False \<rparr>"

text \<open>
  \<open>handleSubmit\<close> from the point where \<open>fetch\<close> settles. The second component is
  \<open>Some data\<close> when \<open>setInterval\<close> is called, \<open>data\<close> being the submission body that the
  interval callback closes over.
\<close>

definition handleSubmit_settled :: "fetch_result \<Rightarrow> app_state \<Rightarrow> app_state \<times> response option" where
  "handleSubmit_settled r st =
     (case r of
        Inl e \<Rightarrow> (handleSubmit_catch e st, None)
      | Inr resp \<Rightarrow>
          if \<not> ok resp then
            (handleSubmit_catch (Error (''Server error: '' @ show_nat (http_status resp))) st, None)
          else
            (case body_json resp of
               Inl e \<Rightarrow> (handleSubmit_catch e st, None)
             | Inr data \<Rightarrow>
                 if truthy_str (task_id data)
                 then (st\<lparr> jobId := task_id data \<rparr>, Some data)
                 else (st, None)))"

subsection \<open>Polling\<close>

text \<open>
  The body of \<open>pollJobStatus\<close> once the status body \<open>data\<close> has been read. The component
  of type \<open>bool\<close> is the value returned. \<open>parseFloat\<close> is the global function of that
  name, on the primitive values it is applied to.
\<close>

definition pollJobStatus_data ::
  "(jsval \<Rightarrow> number) \<Rightarrow> response \<Rightarrow> app_state \<Rightarrow> app_state \<times> bool" where
  "pollJobStatus_data parseFloat data st =
     (let st1 =
        (case progress_data data of
           None \<Rightarrow> st
         | Some pd \<Rightarrow>
             (let currentProgress = parseFloat (or_else (pd_progress pd) (JSNumber (Finite 0)));
                  currentPhase' = phase pd;
                  timeRemaining = parseFloat (or_else (estimated_time_remaining pd) (JSNumber (Finite 0)));
                  s1 = st\<lparr> progress := JSNumber currentProgress \<rparr>;
                  s2 = (if truthy_str currentPhase' then s1\<lparr> currentPhase := currentPhase' \<rparr> else s1)
              in if ge_zero timeRemaining then s2\<lparr> estimatedTime := JSNumber timeRemaining \<rparr> else s2))
      in
      if status data = Some ''COMPLETED'' \<or>
         (case progress_data data of None \<Rightarrow> False
          | Some pd \<Rightarrow> pd_progress pd = JSNumber (Finite 100))
      then
        (let s3 = st1\<lparr> success := Some ''Processing completed successfully!'',
                        processing := False, showResults := True \<rparr>
         in (if statistics data \<noteq> None then s3\<lparr> processingResults := Some data \<rparr> else s3, True))
      else if status data = Some ''FAILED'' then
        (st1\<lparr> error := Some (str_or (error_message data) ''Processing failed''),
              processing := False \<rparr>, True)
      else (st1, False))"

text \<open>
  \<open>pollJobStatus\<close> from the point where its \<open>fetch\<close> settles. The second component is
  what the caller's \<open>await\<close> sees: \<open>Inr b\<close> when the function returns \<open>b\<close>, \<open>Inl e\<close> when
  it throws \<open>e\<close>. The \<open>catch\<close> block logs and returns \<open>false\<close>.
\<close>

definition pollJobStatus ::
  "(jsval \<Rightarrow> number) \<Rightarrow> fetch_result \<Rightarrow> app_state \<Rightarrow> app_state \<times> (js_error + bool)" where
  "pollJobStatus parseFloat r st =
     (case r of
        Inl err \<Rightarrow> (st, Inr False)
      | Inr resp \<Rightarrow>
          (case body_json resp of
             Inl err \<Rightarrow> (st, Inr False)
           | Inr data \<Rightarrow>
               (case pollJobStatus_data parseFloat data st of (st', b) \<Rightarrow> (st', Inr b))))"

text \<open>
  The interval callback of \<open>handleSubmit\<close> after \<open>await pollJobStatus(data.task_id)\<close>,
  \<open>data\<close> being the submission body. The second component tells whether
  \<open>clearInterval(pollInterval)\<close> is called.
\<close>

definition interval_callback ::
  "response \<Rightarrow> app_state \<times> (js_error + bool) \<Rightarrow> app_state \<times> bool" where
  "interval_callback data res =
     (case res of
        (st, Inr completed) \<Rightarrow>
          if completed then (st\<lparr> processingResults := Some data \<rparr>, True) else (st, False)
      | (st, Inl pollError) \<Rightarrow>
          (st\<lparr> error := Some ''Error checking progress'', processing := False \<rparr>, True))"

text \<open>
  One polling interval. \<open>job\<close> is the submission body the callback closes over,
  \<open>interval_active\<close> tells whether the interval has not been cleared, \<open>in_flight\<close> counts
  the status requests that have not settled, and \<open>requests\<close> lists the job identifiers of
  the status requests issued so far, in order.
\<close>

record 'a poller =
  app :: 'a
  job :: response
  interval_active :: bool
  in_flight :: nat
  requests :: "string list"

text \<open>
  The timer fires. The callback of a cleared interval does not run; otherwise it calls
  \<open>pollJobStatus(data.task_id)\<close>, which issues the status request.
\<close>

definition interval_tick :: "'a poller \<Rightarrow> 'a poller" where
  "interval_tick p =
     (if interval_active p
      then p\<lparr> in_flight := Suc (in_flight p),
              requests := requests p @ [str_or (task_id (job p)) ''undefined''] \<rparr>
      else p)"

text \<open>A pending status request settles and the callback runs to its end.\<close>

definition interval_settle :: "(jsval \<Rightarrow> number) \<Rightarrow> fetch_result \<Rightarrow> app_state poller \<Rightarrow> app_state poller" where
  "interval_settle parseFloat r p =
     (if in_flight p = 0 then p
      else
        (case interval_callback (job p) (pollJobStatus parseFloat r (app p)) of
           (st', cleared) \<Rightarrow>
             p\<lparr> app := st', interval_active := (interval_active p \<and> \<not> cleared),
                in_flight := in_flight p - 1 \<rparr>))"

datatype poll_event = Tick | Settle fetch_result

fun poller_step :: "(jsval \<Rightarrow> number) \<Rightarrow> app_state poller \<Rightarrow> poll_event \<Rightarrow> app_state poller" where
  "poller_step parseFloat p Tick = interval_tick p"
| "poller_step parseFloat p (Settle r) = interval_settle parseFloat r p"

definition poller_run :: "(jsval \<Rightarrow> number) \<Rightarrow> app_state poller \<Rightarrow> poll_event list \<Rightarrow> app_state poller" where
  "poller_run parseFloat p evs = foldl (poller_step parseFloat) p evs"

subsection \<open>The main button and the results panel\<close>

datatype action = NoAction | Download string | Post formData

text \<open>\<open>processingResults?.download_url\<close> and \<open>processingResults?.statistics\<close>.\<close>

definition results_download_url :: "app_state \<Rightarrow> string option" where
  "results_download_url st = (case processingResults st of None \<Rightarrow> None | Some d \<Rightarrow> download_url d)"

definition results_statistics :: "app_state \<Rightarrow> statistics option" where
  "results_statistics st = (case processingResults st of None \<Rightarrow> None | Some d \<Rightarrow> statistics d)"

definition handleButtonClick :: "app_state \<Rightarrow> app_state \<times> action" where
  "handleButtonClick st =
     (if showResults st \<and> truthy_str (results_download_url st)
      then (st, Download (str_or (results_download_url st) []))
      else (case handleSubmit st of
              (st', None) \<Rightarrow> (st', NoAction)
            | (st', Some form) \<Rightarrow> (st', Post form)))"

text \<open>\<open>renderResults\<close> returns the panel, with its button, unless this is false.\<close>

definition results_rendered :: "app_state \<Rightarrow> bool" where
  "results_rendered st = (showResults st \<and> results_statistics st \<noteq> None)"

text \<open>The \<open>onClick\<close> of the button ``Process Another Deck''.\<close>

definition processAnother :: "app_state \<Rightarrow> app_state" where
  "processAnother st = resetState (st\<lparr> showResults := False, processingResults := None \<rparr>)"

subsection \<open>The component as a transition system\<close>

text \<open>
  Everything that can change the state of the component: the input events, the settling of
  the submission request, and the settling of a status request of an interval whose
  callback closes over the given submission body. The main button is disabled while
  \<open>processing\<close> holds, and the button of the results panel exists only when the panel is
  rendered. No other order is imposed on the events.
\<close>

datatype event =
    FileUpload "File option" fileType
  | TagChange string
  | ModelChange string
  | ButtonClick
  | SubmitSettled fetch_result
  | PollSettled response fetch_result
  | ProcessAnotherClick

fun step :: "(jsval \<Rightarrow> number) \<Rightarrow> app_state \<Rightarrow> event \<Rightarrow> app_state" where
  "step parseFloat st (FileUpload f t) = handleFileUpload f t st"
| "step parseFloat st (TagChange v) = handleTagChange v st"
| "step parseFloat st (ModelChange v) = handleModelChange v st"
| "step parseFloat st ButtonClick = (if processing st then st else fst (handleButtonClick st))"
| "step parseFloat st (SubmitSettled r) = fst (handleSubmit_settled r st)"
| "step parseFloat st (PollSettled data r) = fst (interval_callback data (pollJobStatus parseFloat r st))"
| "step parseFloat st ProcessAnotherClick = (if results_rendered st then processAnother st else st)"

definition run :: "(jsval \<Rightarrow> number) \<Rightarrow> event list \<Rightarrow> app_state" where
  "run parseFloat evs = foldl (step parseFloat) mount evs"

section \<open>The JavaScript variant of \<open>App\<close>\<close>

definition handleFileUpload_js :: "File option \<Rightarrow> fileType \<Rightarrow> app_js_state \<Rightarrow> app_js_state" where
  "handleFileUpload_js file fileType st =
     (let st1 = st\<lparr> error := None, success := None \<rparr> in
      case file of
        None \<Rightarrow> st1
      | Some f \<Rightarrow>
          (case fileType of
             Anki \<Rightarrow>
               if \<not> endsWith (name f) ''.apkg''
               then st1\<lparr> error := Some ''Please upload a valid Anki deck file (.apkg)'' \<rparr>
               else (let estimatedSeconds = \<lceil>real (file_size f) / (1024 * 1024) * 30\<rceil>
                     in st1\<lparr> ankiFile := Some f,
                             estimatedTime := JSNumber (Finite (of_int estimatedSeconds)) \<rparr>)
           | Study \<Rightarrow>
               if \<not> endsWith (name f) ''.pdf''
               then st1\<lparr> error := Some ''Please upload a PDF study material'' \<rparr>
               else st1\<lparr> studyMaterial := Some f \<rparr>))"

definition handleSubmit_js :: "app_js_state \<Rightarrow> app_js_state \<times> formData option" where
  "handleSubmit_js st =
     (case (ankiFile st, studyMaterial st) of
        (Some a, Some s) \<Rightarrow>
          if customTag st = [] then
            (st\<lparr> error := Some ''Please enter a tag prefix for your cards'' \<rparr>, None)
          else
            (st\<lparr> processing := True, progress := JSNumber (Finite 0), error := None,
                 success := None, currentPhase := None \<rparr>,
             Some \<lparr> anki_file = a, study_material = s, custom_tag = customTag st,
                    model = selectedModel st \<rparr>)
      | _ \<Rightarrow> (st\<lparr> error := Some ''Please upload both an Anki deck and study material'' \<rparr>, None))"

text \<open>The outer \<open>catch (err)\<close> block of \<open>handleSubmit\<close>.\<close>

definition handleSubmit_catch_js :: "js_error \<Rightarrow> app_js_state \<Rightarrow> app_js_state" where
  "handleSubmit_catch_js err st =
     st\<lparr> error := Some (str_or (Some (message err)) ''An error occurred while processing your files''),
         processing := False \<rparr>"

text \<open>
  The inner \<open>try\<close> block on a response that is not \<open>ok\<close>: it parses the body and throws,
  so it always ends in a throw. This is the error it throws.
\<close>

definition parsed_error_thrown :: "http_response \<Rightarrow> js_error" where
  "parsed_error_thrown resp =
     (case body_json resp of
        Inl e \<Rightarrow> e
      | Inr parsedError \<Rightarrow>
          Error (str_or (if truthy_str (error_field parsedError) then error_field parsedError
                         else detail parsedError) ''Processing failed''))"

text \<open>
  \<open>handleSubmit\<close> from the point where \<open>fetch\<close> settles. The inner \<open>catch (e)\<close> receives
  what the inner \<open>try\<close> throws and throws an error of its own.
\<close>

definition handleSubmit_settled_js :: "fetch_result \<Rightarrow> app_js_state \<Rightarrow> app_js_state \<times> response option" where
  "handleSubmit_settled_js r st =
     (case r of
        Inl e \<Rightarrow> (handleSubmit_catch_js e st, None)
      | Inr resp \<Rightarrow>
          if \<not> ok resp then
            (case body_text resp of
               Inl e \<Rightarrow> (handleSubmit_catch_js e st, None)
             | Inr errorData \<Rightarrow>
                 (let e = parsed_error_thrown resp
                  in (handleSubmit_catch_js (Error (''Server error: '' @ errorData)) st, None)))
          else
            (case body_json resp of
               Inl e \<Rightarrow> (handleSubmit_catch_js e st, None)
             | Inr data \<Rightarrow>
                 (let st1 = st\<lparr> jobId := task_id data, estimatedTime := estimated_time data \<rparr>
                  in if truthy_str (task_id data) then (st1, Some data) else (st1, None))))"

text \<open>What \<open>pollJobStatus\<close> does besides setting state.\<close>

datatype effect = Navigate string | ResetStateAfter nat

text \<open>
  The \<open>try\<close> block of \<open>pollJobStatus\<close> from the point where \<open>fetch\<close> settles: the state
  when the block is left, the effects, and \<open>Inr b\<close> when it returns \<open>b\<close> or \<open>Inl e\<close>
  when it throws \<open>e\<close>.
\<close>

definition pollJobStatus_try_js ::
  "fetch_result \<Rightarrow> app_js_state \<Rightarrow> app_js_state \<times> effect list \<times> (js_error + bool)" where
  "pollJobStatus_try_js r st =
     (case r of
        Inl e \<Rightarrow> (st, [], Inl e)
      | Inr resp \<Rightarrow>
          (let contentType = content_type resp in
           if \<not> truthy_str contentType \<or> \<not> str_includes (str_or contentType []) ''application/json''
           then (st, [], Inl (Error (''Expected JSON response but got '' @
                   (case contentType of None \<Rightarrow> ''null'' | Some t \<Rightarrow> t))))
           else if \<not> ok resp then (st, [], Inl (Error ''Failed to fetch job status''))
           else
             (case body_json resp of
                Inl e \<Rightarrow> (st, [], Inl e)
              | Inr data \<Rightarrow>
                  (let st1 = st\<lparr> progress := or_else (progress_field data) (JSNumber (Finite 0)),
                                  currentPhase := (if truthy_str (current_phase data)
                                                   then current_phase data else None) \<rparr>
                   in if status data = Some ''COMPLETED'' then
                        (st1\<lparr> success := Some ''Processing completed successfully!'',
                              processing := False \<rparr>,
                         (if truthy_str (download_url data)
                          then [Navigate (str_or (download_url data) [])] else [])
                           @ [ResetStateAfter 3000],
                         Inr True)
                      else if status data = Some ''FAILED'' then
                        (st1, [], Inl (Error (str_or (error_message data) ''Processing failed'')))
                      else (st1, [], Inr False)))))"

text \<open>\<open>pollJobStatus\<close>: the \<open>catch\<close> block turns every throw into a return of \<open>true\<close>.\<close>

definition pollJobStatus_js ::
  "fetch_result \<Rightarrow> app_js_state \<Rightarrow> app_js_state \<times> effect list \<times> (js_error + bool)" where
  "pollJobStatus_js r st =
     (case pollJobStatus_try_js r st of
        (st1, effs, Inl err) \<Rightarrow>
          (st1\<lparr> error := Some (str_or (Some (message err)) ''Error checking job status''),
                processing := False \<rparr>, effs, Inr True)
      | (st1, effs, Inr b) \<Rightarrow> (st1, effs, Inr b))"

text \<open>
  The interval callback after \<open>await pollJobStatus(data.task_id)\<close>; the last component
  tells whether \<open>clearInterval(pollInterval)\<close> is called.
\<close>

definition interval_callback_js ::
  "app_js_state \<times> effect list \<times> (js_error + bool) \<Rightarrow> app_js_state \<times> effect list \<times> bool" where
  "interval_callback_js res =
     (case res of
        (st, effs, Inr completed) \<Rightarrow> (st, effs, completed)
      | (st, effs, Inl pollError) \<Rightarrow>
          (st\<lparr> error := Some (str_or (Some (message pollError)) ''Error checking job status''),
               processing := False \<rparr>, effs, True))"

section \<open>The embedding scatter plot\<close>

datatype RelevanceType = High | Medium | Low | Document

text \<open>
  \<open>DataPoint\<close>, and \<open>ProcessedDataPoint\<close> when the three coordinates are present. The
  fields \<open>x\<close>, \<open>y\<close> and \<open>z\<close> are named \<open>point_x\<close>, \<open>point_y\<close> and \<open>point_z\<close>.
\<close>

record DataPoint =
  cardId :: string
  relevance :: RelevanceType
  embedding :: "real list"
  similarity :: real
  point_x :: "real option"
  point_y :: "real option"
  point_z :: "real option"

definition THRESHOLDS_high :: real where
  "THRESHOLDS_high = 0.8"

definition THRESHOLDS_medium :: real where
  "THRESHOLDS_medium = 0.5"

definition documentPoint :: "real list \<Rightarrow> DataPoint" where
  "documentPoint documentEmbedding =
     \<lparr> cardId = ''document'', relevance = Document, embedding = documentEmbedding,
       similarity = 1, point_x = Some 100, point_y = Some 100, point_z = Some 100 \<rparr>"

text \<open>The memoised \<open>processedData\<close>; \<open>None\<close> is a \<open>data\<close> property that is null or missing.\<close>

definition processedData :: "real list \<Rightarrow> DataPoint list option \<Rightarrow> DataPoint list" where
  "processedData documentEmbedding data =
     (case data of
        None \<Rightarrow> []
      | Some ps \<Rightarrow>
          if length ps = 0 then []
          else
            (let cardData = map (\<lambda>point. point\<lparr> point_x := Some (similarity point * 100),
                                                point_y := Some (similarity point * 100),
                                                point_z := Some (similarity point * 100) \<rparr>) ps
             in cardData @ [documentPoint documentEmbedding]))"

text \<open>The three \<open>ReferenceArea\<close> elements: \<open>x1\<close>, \<open>x2\<close> and the band they shade.\<close>

definition renderReferenceAreas :: "(real \<times> real \<times> RelevanceType) list" where
  "renderReferenceAreas =
     [(THRESHOLDS_high * 100, 100, High),
      (THRESHOLDS_medium * 100, THRESHOLDS_high * 100, Medium),
      (0, THRESHOLDS_medium * 100, Low)]"

text \<open>The data of the \<open>Scatter\<close> series of one band.\<close>

definition scatter_data :: "RelevanceType \<Rightarrow> DataPoint list \<Rightarrow> DataPoint list" where
  "scatter_data r ps = filter (\<lambda>d. relevance d = r) ps"

section \<open>Sample inputs\<close>

text \<open>
  \<open>parseFloat\<close> on a value that is a number returns the number, as the decimal rendering
  of a number parses back to it. This function stands for \<open>parseFloat\<close> in the examples
  below, which apply it to numbers only.
\<close>

definition parseFloat_number :: "jsval \<Rightarrow> number" where
  "parseFloat_number v = (case v of JSNumber n \<Rightarrow> n | _ \<Rightarrow> NaN)"

text \<open>The body \<open>{}\<close>, a \<open>200\<close> response that carries a given body, and a poller at work.\<close>

definition empty_body :: response where
  "empty_body = \<lparr> status = None, task_id = None, download_url = None, error_message = None,
     progress_data = None, statistics = None, progress_field = JSUndefined,
     current_phase = None, estimated_time = JSUndefined, error_field = None, detail = None \<rparr>"

definition json_response :: "response \<Rightarrow> http_response" where
  "json_response data = \<lparr> http_status = 200, content_type = Some ''application/json'',
     body_text = Inr [], body_json = Inr data \<rparr>"

definition busy_poller :: "app_state poller" where
  "busy_poller = \<lparr> app = mount\<lparr> processing := True, jobId := Some ''job-1'' \<rparr>,
     job = empty_body\<lparr> task_id := Some ''job-1'' \<rparr>, interval_active = True,
     in_flight = 1, requests = [''job-1''] \<rparr>"

text \<open>
  A run of the component: the user picks a model, two files and a tag prefix and submits;
  the submission answers with a job identifier and statistics; a status request answers
  \<open>COMPLETED\<close>.
\<close>

definition completed_run :: "event list" where
  "completed_run =
     [ModelChange ''text-embedding-3-large'',
      FileUpload (Some \<lparr> name = ''deck.apkg'', file_size = 2048 \<rparr>) Anki,
      FileUpload (Some \<lparr> name = ''notes.pdf'', file_size = 4096 \<rparr>) Study,
      TagChange ''bio 101'',
      ButtonClick,
      SubmitSettled (Inr (json_response (empty_body\<lparr> task_id := Some ''job-1'',
         statistics := Some \<lparr> total_cards = 3, high_relevance = 1, medium_relevance = 1,
                               low_relevance = 1 \<rparr> \<rparr>))),
      PollSettled (empty_body\<lparr> task_id := Some ''job-1'',
         statistics := Some \<lparr> total_cards = 3, high_relevance = 1, medium_relevance = 1,
                               low_relevance = 1 \<rparr> \<rparr>)
        (Inr (json_response (empty_body\<lparr> status := Some ''COMPLETED'' \<rparr>)))]"

section \<open>Properties of the input handlers\<close>

subsection \<open>Strings\<close>

lemma endsWith_suffix: "endsWith s t \<longleftrightarrow> suffix t s"
proof
  assume "endsWith s t"
  then have "s = take (length s - length t) s @ t"
    by (metis append_take_drop_id endsWith_def)
  then show "suffix t s" by (rule suffixI)
next
  assume "suffix t s"
  then obtain u where "s = u @ t" by (auto elim: suffixE)
  then show "endsWith s t" by (simp add: endsWith_def)
qed

lemma mem_via_code: "(c \<in> set s) = ((of_char c :: nat) \<in> of_char ` set s)"
proof -
  have "inj (of_char :: char \<Rightarrow> nat)" by (rule injI) simp
  then show ?thesis by (simp only: inj_image_mem_iff)
qed

lemma in_range_codes:
  assumes "(of_char ` set s :: nat set) = {of_char lo .. of_char hi}"
  shows "in_range lo hi c \<longleftrightarrow> c \<in> set s"
proof -
  have "(c \<in> set s) = ((of_char c :: nat) \<in> of_char ` set s)" by (rule mem_via_code)
  also have "\<dots> = ((of_char c :: nat) \<in> {of_char lo .. of_char hi})" by (simp only: assms)
  finally show ?thesis by (simp add: in_range_def)
qed

lemma lower_codes:
  "(of_char ` set ''abcdefghijklmnopqrstuvwxyz'' :: nat set) = {of_char CHR ''a'' .. of_char CHR ''z''}"
  by (simp add: set_eq_iff) arith

lemma upper_codes:
  "(of_char ` set ''ABCDEFGHIJKLMNOPQRSTUVWXYZ'' :: nat set) = {of_char CHR ''A'' .. of_char CHR ''Z''}"
  by (simp add: set_eq_iff) arith

lemma digit_codes:
  "(of_char ` set ''0123456789'' :: nat set) = {of_char CHR ''0'' .. of_char CHR ''9''}"
  by (simp add: set_eq_iff) arith

lemma alnum_class_iff: "alnum_class c \<longleftrightarrow> c \<in> alphanumerics"
  unfolding alnum_class_def alphanumerics_def set_append Un_iff
  by (simp only: in_range_codes [OF lower_codes] in_range_codes [OF upper_codes]
      in_range_codes [OF digit_codes])

lemma replace_underscore_map:
  "replace_non_alnum s ''_'' = map (\<lambda>c. if c \<in> alphanumerics then c else CHR ''_'') s"
  by (induction s) (simp_all add: alnum_class_iff)

subsection \<open>Tag prefix\<close>

text \<open>
  Claim C7. The sanitizer of \<open>handleTagChange\<close> keeps the length of the input, keeps every
  letter and digit where it is, and puts an underscore at every other position; the input
  \<open>My Tag!\<close> gives \<open>My_Tag_\<close>.
\<close>

theorem tag_sanitizer:
  "length (customTag (handleTagChange v st)) = length v \<and>
   (\<forall>i < length v.
      customTag (handleTagChange v st) ! i = (if v ! i \<in> alphanumerics then v ! i else CHR ''_'')) \<and>
   customTag (handleTagChange ''My Tag!'' st) = ''My_Tag_''"
proof -
  have m: "customTag (handleTagChange w st) = map (\<lambda>c. if c \<in> alphanumerics then c else CHR ''_'') w"
    for w
    by (simp add: handleTagChange_def replace_underscore_map)
  have e: "customTag (handleTagChange ''My Tag!'' st) = ''My_Tag_''"
    by (simp add: handleTagChange_def alnum_class_def in_range_def)
  show ?thesis using e by (simp add: m)
qed

theorem tag_sanitizer_witness:
  "(1::nat) < length ''a b'' \<and> customTag (handleTagChange ''a b'' mount) ! 1 = CHR ''_'' \<and>
   customTag (handleTagChange ''a b'' mount) ! 0 = CHR ''a''"
proof -
  have a: "''a b'' ! 1 \<notin> alphanumerics" "''a b'' ! 0 \<in> alphanumerics"
    by (simp_all add: alphanumerics_def)
  from tag_sanitizer [of "''a b''" mount]
  have "\<forall>i < length ''a b''.
      customTag (handleTagChange ''a b'' mount) ! i = (if ''a b'' ! i \<in> alphanumerics then ''a b'' ! i else CHR ''_'')"
    by blast
  then have "customTag (handleTagChange ''a b'' mount) ! 1 = (if ''a b'' ! 1 \<in> alphanumerics then ''a b'' ! 1 else CHR ''_'')"
    and "customTag (handleTagChange ''a b'' mount) ! 0 = (if ''a b'' ! 0 \<in> alphanumerics then ''a b'' ! 0 else CHR ''_'')"
    by simp_all
  with a show ?thesis by simp
qed

subsection \<open>File selection\<close>

text \<open>
  Claim C5. In both variants, \<open>handleFileUpload\<close> on a file whose name does not end with
  the extension of its slot (\<open>.apkg\<close> for the deck, \<open>.pdf\<close> for the study material) sets
  the error message and leaves both stored files as they were; on a file with the
  extension it stores the file in its slot, leaves the other slot, and clears the error.
\<close>

theorem file_upload_extension_check:
  "(\<not> endsWith (name f) ''.apkg'' \<longrightarrow>
      (let st' = handleFileUpload (Some f) Anki st in
         error st' = Some ''Please upload a valid Anki deck file (.apkg)'' \<and>
         ankiFile st' = ankiFile st \<and> studyMaterial st' = studyMaterial st)) \<and>
   (\<not> endsWith (name f) ''.pdf'' \<longrightarrow>
      (let st' = handleFileUpload (Some f) Study st in
         error st' = Some ''Please upload a PDF study material'' \<and>
         ankiFile st' = ankiFile st \<and> studyMaterial st' = studyMaterial st)) \<and>
   (endsWith (name f) ''.apkg'' \<longrightarrow>
      (let st' = handleFileUpload (Some f) Anki st in
         error st' = None \<and> ankiFile st' = Some f \<and> studyMaterial st' = studyMaterial st)) \<and>
   (endsWith (name f) ''.pdf'' \<longrightarrow>
      (let st' = handleFileUpload (Some f) Study st in
         error st' = None \<and> studyMaterial st' = Some f \<and> ankiFile st' = ankiFile st)) \<and>
   (\<not> endsWith (name f) ''.apkg'' \<longrightarrow>
      (let js' = handleFileUpload_js (Some f) Anki js in
         error js' = Some ''Please upload a valid Anki deck file (.apkg)'' \<and>
         ankiFile js' = ankiFile js \<and> studyMaterial js' = studyMaterial js)) \<and>
   (\<not> endsWith (name f) ''.pdf'' \<longrightarrow>
      (let js' = handleFileUpload_js (Some f) Study js in
         error js' = Some ''Please upload a PDF study material'' \<and>
         ankiFile js' = ankiFile js \<and> studyMaterial js' = studyMaterial js)) \<and>
   (endsWith (name f) ''.apkg'' \<longrightarrow>
      (let js' = handleFileUpload_js (Some f) Anki js in
         error js' = None \<and> ankiFile js' = Some f \<and> studyMaterial js' = studyMaterial js)) \<and>
   (endsWith (name f) ''.pdf'' \<longrightarrow>
      (let js' = handleFileUpload_js (Some f) Study js in
         error js' = None \<and> studyMaterial js' = Some f \<and> ankiFile js' = ankiFile js))"
  by (simp add: handleFileUpload_def handleFileUpload_js_def Let_def)

theorem file_upload_extension_check_witness:
  "\<not> endsWith ''deck.txt'' ''.apkg'' \<and> endsWith ''deck.apkg'' ''.apkg'' \<and>
   \<not> endsWith ''notes.apkg'' ''.pdf'' \<and> endsWith ''notes.pdf'' ''.pdf'' \<and>
   error (handleFileUpload (Some \<lparr> name = ''deck.txt'', file_size = 10 \<rparr>) Anki mount)
     = Some ''Please upload a valid Anki deck file (.apkg)'' \<and>
   ankiFile (handleFileUpload (Some \<lparr> name = ''deck.txt'', file_size = 10 \<rparr>) Anki mount) = None \<and>
   ankiFile (handleFileUpload (Some \<lparr> name = ''deck.apkg'', file_size = 10 \<rparr>) Anki mount)
     = Some \<lparr> name = ''deck.apkg'', file_size = 10 \<rparr> \<and>
   error (handleFileUpload (Some \<lparr> name = ''notes.apkg'', file_size = 10 \<rparr>) Study mount)
     = Some ''Please upload a PDF study material'' \<and>
   studyMaterial (handleFileUpload_js (Some \<lparr> name = ''notes.pdf'', file_size = 10 \<rparr>) Study mount_js)
     = Some \<lparr> name = ''notes.pdf'', file_size = 10 \<rparr>"
  using file_upload_extension_check [of "\<lparr> name = ''deck.txt'', file_size = 10 \<rparr>" mount mount_js]
    file_upload_extension_check [of "\<lparr> name = ''deck.apkg'', file_size = 10 \<rparr>" mount mount_js]
    file_upload_extension_check [of "\<lparr> name = ''notes.apkg'', file_size = 10 \<rparr>" mount mount_js]
    file_upload_extension_check [of "\<lparr> name = ''notes.pdf'', file_size = 10 \<rparr>" mount mount_js]
  by (simp add: endsWith_def mount_def mount_js_def Let_def)

section \<open>Properties of submission\<close>

lemma str_or_nonempty: "d \<noteq> [] \<Longrightarrow> str_or v d \<noteq> []"
  by (simp add: str_or_def split: option.splits)

text \<open>
  Claim C4. In both variants, when the deck file or the study file is missing or the tag
  prefix is empty, \<open>handleSubmit\<close> returns before its request: no form is posted, the
  state changes only by the validation message in \<open>error\<close>, and \<open>processing\<close> keeps its
  value.
\<close>

theorem submit_validation:
  "(ankiFile st = None \<or> studyMaterial st = None \<or> customTag st = [] \<longrightarrow>
      snd (handleSubmit st) = None \<and>
      fst (handleSubmit st) = st\<lparr> error := Some
        (if ankiFile st = None \<or> studyMaterial st = None
         then ''Please upload both an Anki deck and study material''
         else ''Please enter a tag prefix for your cards'') \<rparr> \<and>
      processing (fst (handleSubmit st)) = processing st) \<and>
   (ankiFile js = None \<or> studyMaterial js = None \<or> customTag js = [] \<longrightarrow>
      snd (handleSubmit_js js) = None \<and>
      fst (handleSubmit_js js) = js\<lparr> error := Some
        (if ankiFile js = None \<or> studyMaterial js = None
         then ''Please upload both an Anki deck and study material''
         else ''Please enter a tag prefix for your cards'') \<rparr> \<and>
      processing (fst (handleSubmit_js js)) = processing js)"
  by (auto simp: handleSubmit_def handleSubmit_js_def split: option.splits)

theorem submit_validation_witness:
  "(ankiFile mount = None \<or> studyMaterial mount = None \<or> customTag mount = []) \<and>
   snd (handleSubmit mount) = None \<and>
   error (fst (handleSubmit mount)) = Some ''Please upload both an Anki deck and study material'' \<and>
   \<not> processing (fst (handleSubmit mount)) \<and>
   (ankiFile mount_js = None \<or> studyMaterial mount_js = None \<or> customTag mount_js = []) \<and>
   snd (handleSubmit_js mount_js) = None \<and>
   \<not> processing (fst (handleSubmit_js mount_js))"
proof -
  have h: "ankiFile mount = None" "ankiFile mount_js = None" "\<not> processing mount"
    "\<not> processing mount_js"
    by (simp_all add: mount_def mount_js_def)
  from h submit_validation [of mount mount_js] show ?thesis by simp
qed

text \<open>
  Claim C3, as amended. When the submission response is not \<open>ok\<close>, the submission fails in
  both variants: \<open>processing\<close> is cleared, no interval is started and an error message is
  shown. In \<open>App.tsx\<close> the message is \<open>Server error:\<close> followed by the HTTP status code; the
  body of the response is not read. In the JavaScript variant the message is not empty.
\<close>

theorem submit_server_error:
  assumes "\<not> ok resp"
  shows "handleSubmit_settled (Inr resp) st =
           (st\<lparr> error := Some (''Server error: '' @ show_nat (http_status resp)),
                processing := False \<rparr>, None) \<and>
         snd (handleSubmit_settled_js (Inr resp) js) = None \<and>
         processing (fst (handleSubmit_settled_js (Inr resp) js)) = False \<and>
         (\<exists>m. m \<noteq> [] \<and> error (fst (handleSubmit_settled_js (Inr resp) js)) = Some m)"
  using assms
  by (auto simp: handleSubmit_settled_def handleSubmit_catch_def handleSubmit_settled_js_def
      handleSubmit_catch_js_def Let_def str_or_nonempty split: sum.splits)

text \<open>
  The claim as stated fails in \<open>App.tsx\<close>: a \<open>500\<close> response whose JSON body carries the
  detail \<open>bad deck\<close> in its \<open>error\<close> field is shown as \<open>Server error: 500\<close>.
\<close>

theorem submit_server_error_counterexample:
  \<open>\<not> ok \<lparr> http_status = 500, content_type = Some ''application/json'',
       body_text = Inr ''{"error": "bad deck"}'',
       body_json = Inr (empty_body\<lparr> error_field := Some ''bad deck'' \<rparr>) \<rparr> \<and>
   error (fst (handleSubmit_settled (Inr \<lparr> http_status = 500, content_type = Some ''application/json'',
       body_text = Inr ''{"error": "bad deck"}'',
       body_json = Inr (empty_body\<lparr> error_field := Some ''bad deck'' \<rparr>) \<rparr>) mount))
     = Some ''Server error: 500'' \<and>
   \<not> str_includes ''Server error: 500'' ''bad deck''\<close>
  by (simp add: ok_def handleSubmit_settled_def handleSubmit_catch_def show_nat.simps)

theorem submit_server_error_witness:
  "\<not> ok \<lparr> http_status = 404, content_type = None, body_text = Inr ''Not found'',
          body_json = Inl (Error ''Unexpected token'') \<rparr> \<and>
   handleSubmit_settled (Inr \<lparr> http_status = 404, content_type = None, body_text = Inr ''Not found'',
          body_json = Inl (Error ''Unexpected token'') \<rparr>) (mount\<lparr> processing := True \<rparr>)
     = (mount\<lparr> processing := False, error := Some ''Server error: 404'' \<rparr>, None) \<and>
   processing (fst (handleSubmit_settled_js (Inr \<lparr> http_status = 404, content_type = None,
          body_text = Inr ''Not found'', body_json = Inl (Error ''Unexpected token'') \<rparr>)
        (mount_js\<lparr> processing := True \<rparr>))) = False"
proof -
  have h: "\<not> ok \<lparr> http_status = 404, content_type = None, body_text = Inr ''Not found'',
          body_json = Inl (Error ''Unexpected token'') \<rparr>"
    by (simp add: ok_def)
  from submit_server_error [OF h, of "mount\<lparr> processing := True \<rparr>" "mount_js\<lparr> processing := True \<rparr>"] h
  show ?thesis by (simp add: show_nat.simps mount_def)
qed

text \<open>
  In the JavaScript variant the error built from the parsed body is thrown inside the
  \<open>try\<close> block whose own \<open>catch\<close> replaces it: whatever the body parses to, the message
  shown is \<open>Server error:\<close> followed by the text of the body.
\<close>

lemma submit_server_error_js_message:
  "\<not> ok resp \<Longrightarrow> body_text resp = Inr errorData \<Longrightarrow>
     error (fst (handleSubmit_settled_js (Inr resp) js)) = Some (''Server error: '' @ errorData)"
  by (simp add: handleSubmit_settled_js_def handleSubmit_catch_js_def Let_def str_or_def)

section \<open>Properties of polling\<close>

lemma cleared_step:
  "\<not> interval_active p \<Longrightarrow>
     \<not> interval_active (poller_step pf p ev) \<and> requests (poller_step pf p ev) = requests p"
  by (cases ev) (auto simp: interval_tick_def interval_settle_def split: prod.splits)

lemma cleared_run:
  "\<not> interval_active p \<Longrightarrow>
     \<not> interval_active (poller_run pf p evs) \<and> requests (poller_run pf p evs) = requests p"
proof (induction evs arbitrary: p)
  case Nil
  then show ?case by (simp add: poller_run_def)
next
  case (Cons ev evs)
  from Cons.prems cleared_step [of p pf ev]
  have s: "\<not> interval_active (poller_step pf p ev)" "requests (poller_step pf p ev) = requests p"
    by simp_all
  from Cons.IH [OF s(1)] s(2) show ?case by (simp add: poller_run_def)
qed

lemma pollJobStatus_data_completed:
  assumes "status data = Some ''COMPLETED'' \<or>
           (\<exists>pd. progress_data data = Some pd \<and> pd_progress pd = JSNumber (Finite 100))"
  shows "snd (pollJobStatus_data pf data st) = True"
    and "success (fst (pollJobStatus_data pf data st)) = Some ''Processing completed successfully!''"
    and "processing (fst (pollJobStatus_data pf data st)) = False"
    and "showResults (fst (pollJobStatus_data pf data st)) = True"
  using assms by (auto simp: pollJobStatus_data_def Let_def split: option.splits)

lemma pollJobStatus_data_failed:
  assumes "status data = Some ''FAILED''"
    and "\<forall>pd. progress_data data = Some pd \<longrightarrow> pd_progress pd \<noteq> JSNumber (Finite 100)"
  shows "snd (pollJobStatus_data pf data st) = True"
    and "processing (fst (pollJobStatus_data pf data st)) = False"
    and "error (fst (pollJobStatus_data pf data st))
           = Some (str_or (error_message data) ''Processing failed'')"
  using assms by (auto simp: pollJobStatus_data_def Let_def split: option.splits)

lemma pollJobStatus_returns: "\<exists>b. snd (pollJobStatus pf r st) = Inr b"
  by (auto simp: pollJobStatus_def split: sum.splits prod.splits)

lemma pollJobStatus_js_failure:
  assumes "r = Inl e \<or> (\<exists>resp. r = Inr resp \<and> body_json resp = Inl e)"
  shows "\<exists>m. m \<noteq> [] \<and>
           interval_callback_js (pollJobStatus_js r js) = (js\<lparr> error := Some m, processing := False \<rparr>, [], True)"
proof -
  have "\<exists>err. pollJobStatus_try_js r js = (js, [], Inl err)"
    using assms by (auto simp: pollJobStatus_try_js_def Let_def)
  then obtain err where "pollJobStatus_try_js r js = (js, [], Inl err)" ..
  then have "interval_callback_js (pollJobStatus_js r js) =
      (js\<lparr> error := Some (str_or (Some (message err)) ''Error checking job status''), processing := False \<rparr>, [], True)"
    by (simp add: pollJobStatus_js_def interval_callback_js_def)
  moreover have "str_or (Some (message err)) ''Error checking job status'' \<noteq> []"
    by (rule str_or_nonempty) simp
  ultimately show ?thesis by blast
qed

lemma pollJobStatus_js_rejected:
  assumes "\<not> (truthy_str (content_type resp) \<and>
              str_includes (str_or (content_type resp) []) ''application/json'') \<or> \<not> ok resp"
  shows "\<exists>m. m \<noteq> [] \<and>
           interval_callback_js (pollJobStatus_js (Inr resp) js)
             = (js\<lparr> error := Some m, processing := False \<rparr>, [], True)"
proof -
  have "\<exists>err. pollJobStatus_try_js (Inr resp) js = (js, [], Inl err)"
    using assms by (auto simp: pollJobStatus_try_js_def Let_def)
  then obtain err where "pollJobStatus_try_js (Inr resp) js = (js, [], Inl err)" ..
  then have "interval_callback_js (pollJobStatus_js (Inr resp) js) =
      (js\<lparr> error := Some (str_or (Some (message err)) ''Error checking job status''), processing := False \<rparr>, [], True)"
    by (simp add: pollJobStatus_js_def interval_callback_js_def)
  moreover have "str_or (Some (message err)) ''Error checking job status'' \<noteq> []"
    by (rule str_or_nonempty) simp
  ultimately show ?thesis by blast
qed

text \<open>
  Claim C1. In \<open>App.tsx\<close>, when a pending status request settles with a body whose
  \<open>status\<close> is \<open>COMPLETED\<close> or whose \<open>progress_data.progress\<close> is the number 100, the
  success message is set, \<open>processing\<close> is cleared, the results are shown and the interval
  is cleared; whatever ticks and responses follow, no status request is added to those
  already issued.
\<close>

theorem completion_stops_polling:
  assumes sig: "status data = Some ''COMPLETED'' \<or>
           (\<exists>pd. progress_data data = Some pd \<and> pd_progress pd = JSNumber (Finite 100))"
    and body: "body_json resp = Inr data"
    and pending: "0 < in_flight p"
  shows "success (app (interval_settle pf (Inr resp) p)) = Some ''Processing completed successfully!'' \<and>
         \<not> processing (app (interval_settle pf (Inr resp) p)) \<and>
         showResults (app (interval_settle pf (Inr resp) p)) \<and>
         \<not> interval_active (interval_settle pf (Inr resp) p) \<and>
         (\<forall>evs. requests (poller_run pf (interval_settle pf (Inr resp) p) evs) = requests p)"
proof -
  let ?p = "interval_settle pf (Inr resp) p"
  obtain st' where r: "pollJobStatus_data pf data (app p) = (st', True)"
    using pollJobStatus_data_completed(1) [OF sig, of pf "app p"]
    by (cases "pollJobStatus_data pf data (app p)") simp
  from pollJobStatus_data_completed(2-4) [OF sig, of pf "app p"] r
  have f: "success st' = Some ''Processing completed successfully!''" "\<not> processing st'"
    "showResults st'"
    by simp_all
  have p': "?p = p\<lparr> app := st'\<lparr> processingResults := Some (job p) \<rparr>, interval_active := False,
                     in_flight := in_flight p - 1 \<rparr>"
    using pending body r by (simp add: interval_settle_def pollJobStatus_def interval_callback_def)
  have na: "\<not> interval_active ?p" by (simp add: p')
  have rq: "requests ?p = requests p" by (simp add: p')
  have "\<forall>evs. requests (poller_run pf ?p evs) = requests p"
    using cleared_run [OF na] rq by simp
  then show ?thesis using f na by (simp add: p')
qed

theorem completion_stops_polling_witness:
  "(status (empty_body\<lparr> progress_data := Some \<lparr> pd_progress = JSNumber (Finite 100),
        phase = Some ''Tagging'', estimated_time_remaining = JSNumber (Finite 0) \<rparr> \<rparr>) = Some ''COMPLETED'' \<or>
    (\<exists>pd. progress_data (empty_body\<lparr> progress_data := Some \<lparr> pd_progress = JSNumber (Finite 100),
        phase = Some ''Tagging'', estimated_time_remaining = JSNumber (Finite 0) \<rparr> \<rparr>) = Some pd \<and>
        pd_progress pd = JSNumber (Finite 100))) \<and>
   0 < in_flight busy_poller \<and>
   showResults (app (interval_settle parseFloat_number
     (Inr (json_response (empty_body\<lparr> progress_data := Some \<lparr> pd_progress = JSNumber (Finite 100),
        phase = Some ''Tagging'', estimated_time_remaining = JSNumber (Finite 0) \<rparr> \<rparr>))) busy_poller)) \<and>
   requests (poller_run parseFloat_number (interval_settle parseFloat_number
     (Inr (json_response (empty_body\<lparr> progress_data := Some \<lparr> pd_progress = JSNumber (Finite 100),
        phase = Some ''Tagging'', estimated_time_remaining = JSNumber (Finite 0) \<rparr> \<rparr>))) busy_poller)
     [Tick, Tick]) = [''job-1'']"
proof -
  let ?d = "empty_body\<lparr> progress_data := Some \<lparr> pd_progress = JSNumber (Finite 100),
        phase = Some ''Tagging'', estimated_time_remaining = JSNumber (Finite 0) \<rparr> \<rparr>"
  have h1: "status ?d = Some ''COMPLETED'' \<or>
    (\<exists>pd. progress_data ?d = Some pd \<and> pd_progress pd = JSNumber (Finite 100))"
    by simp
  have h2: "body_json (json_response ?d) = Inr ?d" by (simp add: json_response_def)
  have h3: "0 < in_flight busy_poller" by (simp add: busy_poller_def)
  have rq: "requests busy_poller = [''job-1'']" by (simp add: busy_poller_def)
  from completion_stops_polling [OF h1 h2 h3, of parseFloat_number] h1 h3 rq
  show ?thesis by simp
qed

lemma pollJobStatus_js_fetch_rejected:
  "interval_callback_js (pollJobStatus_js (Inl e) js)
     = (js\<lparr> error := Some (if message e = [] then ''Error checking job status'' else message e),
            processing := False \<rparr>, [], True)"
  by (simp add: pollJobStatus_js_def pollJobStatus_try_js_def interval_callback_js_def str_or_def)

lemma pollJobStatus_js_not_json:
  assumes "\<not> (truthy_str (content_type resp) \<and>
              str_includes (str_or (content_type resp) []) ''application/json'')"
  shows "interval_callback_js (pollJobStatus_js (Inr resp) js)
           = (js\<lparr> error := Some (''Expected JSON response but got '' @
                       (case content_type resp of None \<Rightarrow> ''null'' | Some t \<Rightarrow> t)),
                  processing := False \<rparr>, [], True)"
proof -
  have "pollJobStatus_try_js (Inr resp) js = (js, [], Inl (Error (''Expected JSON response but got '' @
          (case content_type resp of None \<Rightarrow> ''null'' | Some t \<Rightarrow> t))))"
    using assms by (auto simp: pollJobStatus_try_js_def Let_def)
  then show ?thesis
    by (simp add: pollJobStatus_js_def interval_callback_js_def str_or_def)
qed

lemma pollJobStatus_js_not_ok:
  assumes "truthy_str (content_type resp)"
    and "str_includes (str_or (content_type resp) []) ''application/json''"
    and "\<not> ok resp"
  shows "interval_callback_js (pollJobStatus_js (Inr resp) js)
           = (js\<lparr> error := Some ''Failed to fetch job status'', processing := False \<rparr>, [], True)"
proof -
  have "pollJobStatus_try_js (Inr resp) js = (js, [], Inl (Error ''Failed to fetch job status''))"
    using assms by (simp add: pollJobStatus_try_js_def Let_def)
  then show ?thesis
    by (simp add: pollJobStatus_js_def interval_callback_js_def str_or_def)
qed

lemma pollJobStatus_js_unreadable:
  assumes "truthy_str (content_type resp)"
    and "str_includes (str_or (content_type resp) []) ''application/json''"
    and "ok resp" and "body_json resp = Inl e"
  shows "interval_callback_js (pollJobStatus_js (Inr resp) js)
           = (js\<lparr> error := Some (if message e = [] then ''Error checking job status'' else message e),
                  processing := False \<rparr>, [], True)"
proof -
  have "pollJobStatus_try_js (Inr resp) js = (js, [], Inl e)"
    using assms by (simp add: pollJobStatus_try_js_def Let_def)
  then show ?thesis
    by (simp add: pollJobStatus_js_def interval_callback_js_def str_or_def)
qed

lemma pollJobStatus_js_returns: "\<exists>c. snd (snd (pollJobStatus_js r js)) = Inr c"
  by (cases "pollJobStatus_try_js r js" rule: prod_cases3)
    (auto simp: pollJobStatus_js_def split: sum.splits)

text \<open>
  Claim C2, as amended. In \<open>App.tsx\<close>, when a pending status request of an active interval
  fails in transport (\<open>fetch\<close> rejects, or the body cannot be read as JSON), the state of
  the component is unchanged, the interval stays active and the next tick issues a new
  status request; \<open>pollJobStatus\<close> never throws to its caller, and the callback's
  \<open>catch\<close> block, which clears the interval with the message
  \<open>Error checking progress\<close>, runs only on such a throw: on a return the callback sets
  no error and clears the interval only when \<open>true\<close> was returned. In the JavaScript
  variant the failure is terminal: \<open>pollJobStatus\<close> itself clears \<open>processing\<close> and
  returns \<open>true\<close>, so the interval is cleared, and the error shown is the message of the
  rejection (\<open>Error checking job status\<close> when that message is empty),
  \<open>Expected JSON response but got\<close> followed by the content type when that is missing or
  does not contain \<open>application/json\<close>, and \<open>Failed to fetch job status\<close> when the
  response is not \<open>ok\<close>. There too \<open>pollJobStatus\<close> never throws to its caller.
\<close>

theorem transport_failure_policy:
  assumes fail: "r = Inl e \<or> (\<exists>resp. r = Inr resp \<and> body_json resp = Inl e)"
    and pending: "0 < in_flight p"
    and active: "interval_active p"
  shows "app (interval_settle pf r p) = app p \<and>
         interval_active (interval_settle pf r p) \<and>
         requests (interval_tick (interval_settle pf r p))
           = requests p @ [str_or (task_id (job p)) ''undefined''] \<and>
         (\<forall>r' st'. \<exists>b. snd (pollJobStatus pf r' st') = Inr b) \<and>
         interval_callback d (st, Inl e')
           = (st\<lparr> error := Some ''Error checking progress'', processing := False \<rparr>, True) \<and>
         interval_callback d (st, Inr b)
           = (if b then (st\<lparr> processingResults := Some d \<rparr>, True) else (st, False)) \<and>
         (\<exists>m. m \<noteq> [] \<and>
            interval_callback_js (pollJobStatus_js r js)
              = (js\<lparr> error := Some m, processing := False \<rparr>, [], True)) \<and>
         (\<not> (truthy_str (content_type resp') \<and>
              str_includes (str_or (content_type resp') []) ''application/json'') \<or> \<not> ok resp' \<longrightarrow>
            (\<exists>m. m \<noteq> [] \<and>
               interval_callback_js (pollJobStatus_js (Inr resp') js)
                 = (js\<lparr> error := Some m, processing := False \<rparr>, [], True))) \<and>
         interval_callback_js (pollJobStatus_js (Inl e) js)
           = (js\<lparr> error := Some (if message e = [] then ''Error checking job status'' else message e),
                  processing := False \<rparr>, [], True) \<and>
         (\<not> (truthy_str (content_type resp') \<and>
              str_includes (str_or (content_type resp') []) ''application/json'') \<longrightarrow>
            interval_callback_js (pollJobStatus_js (Inr resp') js)
              = (js\<lparr> error := Some (''Expected JSON response but got '' @
                          (case content_type resp' of None \<Rightarrow> ''null'' | Some t \<Rightarrow> t)),
                     processing := False \<rparr>, [], True)) \<and>
         (truthy_str (content_type resp') \<and>
            str_includes (str_or (content_type resp') []) ''application/json'' \<and> \<not> ok resp' \<longrightarrow>
            interval_callback_js (pollJobStatus_js (Inr resp') js)
              = (js\<lparr> error := Some ''Failed to fetch job status'', processing := False \<rparr>, [], True)) \<and>
         (truthy_str (content_type resp') \<and>
            str_includes (str_or (content_type resp') []) ''application/json'' \<and> ok resp' \<and>
            body_json resp' = Inl e \<longrightarrow>
            interval_callback_js (pollJobStatus_js (Inr resp') js)
              = (js\<lparr> error := Some (if message e = [] then ''Error checking job status'' else message e),
                     processing := False \<rparr>, [], True)) \<and>
         (\<forall>r' js'. \<exists>c. snd (snd (pollJobStatus_js r' js')) = Inr c) \<and>
         interval_callback_js (js, effs, Inr b) = (js, effs, b) \<and>
         interval_callback_js (js, effs, Inl e')
           = (js\<lparr> error := Some (if message e' = [] then ''Error checking job status'' else message e'),
                  processing := False \<rparr>, effs, True)"
proof -
  have a: "pollJobStatus pf r (app p) = (app p, Inr False)"
    using fail by (auto simp: pollJobStatus_def)
  have s: "interval_settle pf r p =
      p\<lparr> app := app p, interval_active := interval_active p, in_flight := in_flight p - 1 \<rparr>"
    using pending by (simp add: interval_settle_def a interval_callback_def)
  have 1: "app (interval_settle pf r p) = app p" by (simp add: s)
  have 2: "interval_active (interval_settle pf r p)" using active by (simp add: s)
  have 3: "requests (interval_tick (interval_settle pf r p))
           = requests p @ [str_or (task_id (job p)) ''undefined'']"
    using active by (simp add: s interval_tick_def)
  have 4: "\<forall>r' st'. \<exists>b. snd (pollJobStatus pf r' st') = Inr b"
    by (simp add: pollJobStatus_returns)
  have 5: "interval_callback d (st, Inl e')
           = (st\<lparr> error := Some ''Error checking progress'', processing := False \<rparr>, True)"
    by (simp add: interval_callback_def)
  have 6: "interval_callback d (st, Inr b)
           = (if b then (st\<lparr> processingResults := Some d \<rparr>, True) else (st, False))"
    by (simp add: interval_callback_def)
  have 7: "interval_callback_js (pollJobStatus_js (Inl e) js)
           = (js\<lparr> error := Some (if message e = [] then ''Error checking job status'' else message e),
                  processing := False \<rparr>, [], True)"
    by (simp add: pollJobStatus_js_fetch_rejected)
  have 8: "\<not> (truthy_str (content_type resp') \<and>
              str_includes (str_or (content_type resp') []) ''application/json'') \<longrightarrow>
            interval_callback_js (pollJobStatus_js (Inr resp') js)
              = (js\<lparr> error := Some (''Expected JSON response but got '' @
                          (case content_type resp' of None \<Rightarrow> ''null'' | Some t \<Rightarrow> t)),
                     processing := False \<rparr>, [], True)"
    by (simp add: pollJobStatus_js_not_json)
  have 9: "truthy_str (content_type resp') \<and>
            str_includes (str_or (content_type resp') []) ''application/json'' \<and> \<not> ok resp' \<longrightarrow>
            interval_callback_js (pollJobStatus_js (Inr resp') js)
              = (js\<lparr> error := Some ''Failed to fetch job status'', processing := False \<rparr>, [], True)"
    by (simp add: pollJobStatus_js_not_ok)
  have 10: "truthy_str (content_type resp') \<and>
            str_includes (str_or (content_type resp') []) ''application/json'' \<and> ok resp' \<and>
            body_json resp' = Inl e \<longrightarrow>
            interval_callback_js (pollJobStatus_js (Inr resp') js)
              = (js\<lparr> error := Some (if message e = [] then ''Error checking job status'' else message e),
                     processing := False \<rparr>, [], True)"
    by (simp add: pollJobStatus_js_unreadable)
  have 11: "\<forall>r' js'. \<exists>c. snd (snd (pollJobStatus_js r' js')) = Inr c"
    by (simp add: pollJobStatus_js_returns)
  have 12: "interval_callback_js (js, effs, Inr b) = (js, effs, b)"
    "interval_callback_js (js, effs, Inl e')
           = (js\<lparr> error := Some (if message e' = [] then ''Error checking job status'' else message e'),
                  processing := False \<rparr>, effs, True)"
    by (simp_all add: interval_callback_js_def str_or_def)
  have 13: "\<exists>m. m \<noteq> [] \<and>
            interval_callback_js (pollJobStatus_js r js)
              = (js\<lparr> error := Some m, processing := False \<rparr>, [], True)"
    by (rule pollJobStatus_js_failure [OF fail])
  have 14: "\<not> (truthy_str (content_type resp') \<and>
              str_includes (str_or (content_type resp') []) ''application/json'') \<or> \<not> ok resp' \<longrightarrow>
            (\<exists>m. m \<noteq> [] \<and>
               interval_callback_js (pollJobStatus_js (Inr resp') js)
                 = (js\<lparr> error := Some m, processing := False \<rparr>, [], True))"
    using pollJobStatus_js_rejected [of resp' js] by blast
  show ?thesis
    by (intro conjI) (rule 1 2 3 4 5 6 7 8 9 10 11 12 13 14)+
qed

text \<open>
  The claim as stated fails in the JavaScript variant: a rejected \<open>fetch\<close> ends the loop
  with the message of the rejection.
\<close>

theorem transport_failure_policy_counterexample:
  "interval_callback_js (pollJobStatus_js (Inl (Error ''Failed to fetch'')) (mount_js\<lparr> processing := True \<rparr>))
     = (mount_js\<lparr> processing := False, error := Some ''Failed to fetch'' \<rparr>, [], True)"
  by (simp add: pollJobStatus_js_def pollJobStatus_try_js_def interval_callback_js_def str_or_def
      mount_js_def)

theorem transport_failure_policy_witness:
  "0 < in_flight busy_poller \<and> interval_active busy_poller \<and>
   app (interval_settle parseFloat_number (Inl (Error ''Failed to fetch'')) busy_poller) = app busy_poller \<and>
   interval_active (interval_settle parseFloat_number (Inl (Error ''Failed to fetch'')) busy_poller) \<and>
   requests (interval_tick (interval_settle parseFloat_number (Inl (Error ''Failed to fetch'')) busy_poller))
     = [''job-1'', ''job-1''] \<and>
   truthy_str (content_type ((json_response empty_body)\<lparr> http_status := 502 \<rparr>)) \<and>
   str_includes (str_or (content_type ((json_response empty_body)\<lparr> http_status := 502 \<rparr>)) [])
     ''application/json'' \<and>
   \<not> ok ((json_response empty_body)\<lparr> http_status := 502 \<rparr>) \<and>
   interval_callback_js (pollJobStatus_js (Inr ((json_response empty_body)\<lparr> http_status := 502 \<rparr>))
       (mount_js\<lparr> processing := True \<rparr>))
     = (mount_js\<lparr> processing := False, error := Some ''Failed to fetch job status'' \<rparr>, [], True) \<and>
   interval_callback_js (pollJobStatus_js (Inl (Error ''Failed to fetch'')) (mount_js\<lparr> processing := True \<rparr>))
     = (mount_js\<lparr> processing := False, error := Some ''Failed to fetch'' \<rparr>, [], True)"
proof -
  let ?resp = "(json_response empty_body)\<lparr> http_status := 502 \<rparr>"
  have h1: "Inl (Error ''Failed to fetch'') = Inl (Error ''Failed to fetch'') \<or>
     (\<exists>resp. (Inl (Error ''Failed to fetch'') :: fetch_result) = Inr resp \<and> body_json resp = Inl (Error ''Failed to fetch''))"
    by simp
  have h2: "0 < in_flight busy_poller" and h3: "interval_active busy_poller"
    by (simp_all add: busy_poller_def)
  have h4: "truthy_str (content_type ?resp)"
    "str_includes (str_or (content_type ?resp) []) ''application/json''" "\<not> ok ?resp"
    by (simp_all add: json_response_def truthy_str_def str_or_def ok_def)
  have q: "requests busy_poller = [''job-1'']" "str_or (task_id (job busy_poller)) ''undefined'' = ''job-1''"
    by (simp_all add: busy_poller_def empty_body_def str_or_def)
  from transport_failure_policy [OF h1 h2 h3, of parseFloat_number _ _ _ _ "mount_js\<lparr> processing := True \<rparr>" ?resp]
    h2 h3 h4 q
  show ?thesis by (simp add: mount_js_def)
qed

text \<open>
  Claim C6, as amended. In \<open>App.tsx\<close>, when a status body has \<open>status\<close> \<open>FAILED\<close> and its
  \<open>progress_data.progress\<close> is not the number 100, \<open>pollJobStatus\<close> clears \<open>processing\<close>
  and returns \<open>true\<close>, so the interval is cleared; the error shown is \<open>error_message\<close>,
  character for character, when that is a non-empty string, and \<open>Processing failed\<close> when
  it is missing or empty. The JavaScript variant does the same on every body with
  \<open>status\<close> \<open>FAILED\<close>, whatever its \<open>progress_data\<close>, when the response is \<open>ok\<close> and its
  content type contains \<open>application/json\<close>.
\<close>

theorem failed_status_message:
  assumes failed: "status data = Some ''FAILED''"
    and body: "body_json resp = Inr data"
  shows "((\<forall>pd. progress_data data = Some pd \<longrightarrow> pd_progress pd \<noteq> JSNumber (Finite 100)) \<longrightarrow>
           snd (pollJobStatus pf (Inr resp) st) = Inr True \<and>
           snd (interval_callback d (pollJobStatus pf (Inr resp) st)) = True \<and>
           \<not> processing (fst (pollJobStatus pf (Inr resp) st)) \<and>
           (error_message data = Some m \<and> m \<noteq> [] \<longrightarrow>
              error (fst (pollJobStatus pf (Inr resp) st)) = Some m) \<and>
           (error_message data = None \<or> error_message data = Some [] \<longrightarrow>
              error (fst (pollJobStatus pf (Inr resp) st)) = Some ''Processing failed'')) \<and>
         (truthy_str (content_type resp) \<and>
          str_includes (str_or (content_type resp) []) ''application/json'' \<and> ok resp \<longrightarrow>
            (\<exists>js'. interval_callback_js (pollJobStatus_js (Inr resp) js) = (js', [], True) \<and>
               \<not> processing js' \<and>
               (error_message data = Some m \<and> m \<noteq> [] \<longrightarrow> error js' = Some m) \<and>
               (error_message data = None \<or> error_message data = Some [] \<longrightarrow>
                  error js' = Some ''Processing failed'')))"
proof -
  have tsx: "snd (pollJobStatus pf (Inr resp) st) = Inr True \<and>
           snd (interval_callback d (pollJobStatus pf (Inr resp) st)) = True \<and>
           \<not> processing (fst (pollJobStatus pf (Inr resp) st)) \<and>
           (error_message data = Some m \<and> m \<noteq> [] \<longrightarrow>
              error (fst (pollJobStatus pf (Inr resp) st)) = Some m) \<and>
           (error_message data = None \<or> error_message data = Some [] \<longrightarrow>
              error (fst (pollJobStatus pf (Inr resp) st)) = Some ''Processing failed'')"
    if not100: "\<forall>pd. progress_data data = Some pd \<longrightarrow> pd_progress pd \<noteq> JSNumber (Finite 100)"
  proof -
    obtain st' b where p: "pollJobStatus_data pf data st = (st', b)"
      by (cases "pollJobStatus_data pf data st")
    from pollJobStatus_data_failed [OF failed not100, of pf st] p
    have f: "b" "\<not> processing st'"
      "error st' = Some (str_or (error_message data) ''Processing failed'')"
      by simp_all
    have q: "pollJobStatus pf (Inr resp) st = (st', Inr True)"
      using f(1) by (simp add: pollJobStatus_def body p)
    show ?thesis using f by (auto simp: q interval_callback_def str_or_def)
  qed
  have js: "truthy_str (content_type resp) \<and>
            str_includes (str_or (content_type resp) []) ''application/json'' \<and> ok resp \<longrightarrow>
            interval_callback_js (pollJobStatus_js (Inr resp) js) =
              (js\<lparr> progress := or_else (progress_field data) (JSNumber (Finite 0)),
                   currentPhase := (if truthy_str (current_phase data) then current_phase data else None),
                   error := Some (str_or (error_message data) ''Processing failed''),
                   processing := False \<rparr>, [], True)"
    using failed body
    by (simp add: pollJobStatus_js_def pollJobStatus_try_js_def interval_callback_js_def Let_def
        str_or_nonempty str_or_def [of "Some _"])
  have js2: "truthy_str (content_type resp) \<and>
          str_includes (str_or (content_type resp) []) ''application/json'' \<and> ok resp \<longrightarrow>
            (\<exists>js'. interval_callback_js (pollJobStatus_js (Inr resp) js) = (js', [], True) \<and>
               \<not> processing js' \<and>
               (error_message data = Some m \<and> m \<noteq> [] \<longrightarrow> error js' = Some m) \<and>
               (error_message data = None \<or> error_message data = Some [] \<longrightarrow>
                  error js' = Some ''Processing failed''))"
    using js by (auto simp: str_or_def)
  from tsx js2 show ?thesis by blast
qed

text \<open>
  The claim as stated fails in \<open>App.tsx\<close>: a body with \<open>status\<close> \<open>FAILED\<close> and
  \<open>progress_data.progress\<close> 100 takes the completion branch, and its error message is
  not shown.
\<close>

theorem failed_status_message_counterexample:
  "status (empty_body\<lparr> status := Some ''FAILED'', error_message := Some ''bad pdf'',
       progress_data := Some \<lparr> pd_progress = JSNumber (Finite 100), phase = None,
                               estimated_time_remaining = JSUndefined \<rparr> \<rparr>) = Some ''FAILED'' \<and>
   error (fst (pollJobStatus parseFloat_number
     (Inr (json_response (empty_body\<lparr> status := Some ''FAILED'', error_message := Some ''bad pdf'',
       progress_data := Some \<lparr> pd_progress = JSNumber (Finite 100), phase = None,
                               estimated_time_remaining = JSUndefined \<rparr> \<rparr>)))
     (mount\<lparr> processing := True \<rparr>))) = None \<and>
   success (fst (pollJobStatus parseFloat_number
     (Inr (json_response (empty_body\<lparr> status := Some ''FAILED'', error_message := Some ''bad pdf'',
       progress_data := Some \<lparr> pd_progress = JSNumber (Finite 100), phase = None,
                               estimated_time_remaining = JSUndefined \<rparr> \<rparr>)))
     (mount\<lparr> processing := True \<rparr>))) = Some ''Processing completed successfully!''"
  by (simp add: pollJobStatus_def pollJobStatus_data_def json_response_def empty_body_def
      mount_def Let_def or_else_def parseFloat_number_def truthy_str_def)

theorem failed_status_message_witness:
  "status (empty_body\<lparr> status := Some ''FAILED'', error_message := Some ''bad pdf'',
       progress_data := Some \<lparr> pd_progress = JSNumber (Finite 40), phase = Some ''Embedding'',
                               estimated_time_remaining = JSNumber (Finite 12) \<rparr> \<rparr>) = Some ''FAILED'' \<and>
   progress_data (empty_body\<lparr> status := Some ''FAILED'', error_message := Some ''bad pdf'',
       progress_data := Some \<lparr> pd_progress = JSNumber (Finite 40), phase = Some ''Embedding'',
                               estimated_time_remaining = JSNumber (Finite 12) \<rparr> \<rparr>)
     = Some \<lparr> pd_progress = JSNumber (Finite 40), phase = Some ''Embedding'',
              estimated_time_remaining = JSNumber (Finite 12) \<rparr> \<and>
   JSNumber (Finite 40) \<noteq> JSNumber (Finite 100) \<and>
   error (fst (pollJobStatus parseFloat_number
     (Inr (json_response (empty_body\<lparr> status := Some ''FAILED'', error_message := Some ''bad pdf'',
       progress_data := Some \<lparr> pd_progress = JSNumber (Finite 40), phase = Some ''Embedding'',
                               estimated_time_remaining = JSNumber (Finite 12) \<rparr> \<rparr>)))
     (mount\<lparr> processing := True \<rparr>))) = Some ''bad pdf'' \<and>
   snd (pollJobStatus parseFloat_number
     (Inr (json_response (empty_body\<lparr> status := Some ''FAILED'', error_message := Some ''bad pdf'',
       progress_data := Some \<lparr> pd_progress = JSNumber (Finite 40), phase = Some ''Embedding'',
                               estimated_time_remaining = JSNumber (Finite 12) \<rparr> \<rparr>)))
     (mount\<lparr> processing := True \<rparr>)) = Inr True \<and>
   (\<exists>js'. interval_callback_js (pollJobStatus_js
       (Inr (json_response (empty_body\<lparr> status := Some ''FAILED'', error_message := Some ''bad pdf'',
          progress_data := Some \<lparr> pd_progress = JSNumber (Finite 100), phase = None,
                                  estimated_time_remaining = JSUndefined \<rparr> \<rparr>)))
       (mount_js\<lparr> processing := True \<rparr>)) = (js', [], True) \<and> error js' = Some ''bad pdf'')"
proof -
  let ?pd = "\<lparr> pd_progress = JSNumber (Finite 40), phase = Some ''Embedding'',
               estimated_time_remaining = JSNumber (Finite 12) \<rparr>"
  let ?d = "empty_body\<lparr> status := Some ''FAILED'', error_message := Some ''bad pdf'',
               progress_data := Some ?pd \<rparr>"
  let ?e = "empty_body\<lparr> status := Some ''FAILED'', error_message := Some ''bad pdf'',
          progress_data := Some \<lparr> pd_progress = JSNumber (Finite 100), phase = None,
                                  estimated_time_remaining = JSUndefined \<rparr> \<rparr>"
  have h1: "status ?d = Some ''FAILED''" "status ?e = Some ''FAILED''" by simp_all
  have h2: "\<forall>pd. progress_data ?d = Some pd \<longrightarrow> pd_progress pd \<noteq> JSNumber (Finite 100)"
    by simp
  have h3: "body_json (json_response ?d) = Inr ?d" "body_json (json_response ?e) = Inr ?e"
    by (simp_all add: json_response_def)
  have h4: "error_message ?d = Some ''bad pdf'' \<and> ''bad pdf'' \<noteq> []"
    "error_message ?e = Some ''bad pdf'' \<and> ''bad pdf'' \<noteq> []" by simp_all
  have h5: "truthy_str (content_type (json_response ?e)) \<and>
          str_includes (str_or (content_type (json_response ?e)) []) ''application/json'' \<and>
          ok (json_response ?e)"
    by (simp add: json_response_def truthy_str_def str_or_def ok_def)
  from failed_status_message [OF h1(1) h3(1), of parseFloat_number "mount\<lparr> processing := True \<rparr>"
      empty_body "''bad pdf''" mount_js] h2 h4(1)
  have a: "error (fst (pollJobStatus parseFloat_number (Inr (json_response ?d)) (mount\<lparr> processing := True \<rparr>)))
          = Some ''bad pdf''"
    "snd (pollJobStatus parseFloat_number (Inr (json_response ?d)) (mount\<lparr> processing := True \<rparr>)) = Inr True"
    by blast+
  from failed_status_message [OF h1(2) h3(2), of parseFloat_number mount
      empty_body "''bad pdf''" "mount_js\<lparr> processing := True \<rparr>"] h4(2) h5
  have b: "\<exists>js'. interval_callback_js (pollJobStatus_js (Inr (json_response ?e)) (mount_js\<lparr> processing := True \<rparr>))
           = (js', [], True) \<and> error js' = Some ''bad pdf''"
    by blast
  have c: "progress_data ?d = Some ?pd" "JSNumber (Finite 40) \<noteq> JSNumber (Finite 100)"
    by simp_all
  from a b c h1(1) show ?thesis by blast
qed

section \<open>Properties of the component as a whole\<close>

lemma run_snoc: "run pf (evs @ [ev]) = step pf (run pf evs) ev"
  by (simp add: run_def)

lemma pollJobStatus_data_customTag:
  "customTag (fst (pollJobStatus_data pf data st)) = customTag st"
  by (simp add: pollJobStatus_data_def Let_def split: option.splits)

lemma pollJobStatus_data_flags:
  "showResults st \<longrightarrow> \<not> processing st \<Longrightarrow>
   showResults (fst (pollJobStatus_data pf data st)) \<longrightarrow> \<not> processing (fst (pollJobStatus_data pf data st))"
  by (simp add: pollJobStatus_data_def Let_def split: option.splits)

text \<open>Every event keeps the tag prefix, empties it, or stores a sanitized string.\<close>

lemma step_customTag:
  "customTag (step pf st ev) = customTag st \<or> customTag (step pf st ev) = [] \<or>
   (\<exists>v. customTag (step pf st ev) = replace_non_alnum v ''_'')"
proof (cases ev)
  case (PollSettled data r)
  then show ?thesis
    by (auto simp: pollJobStatus_def interval_callback_def split: sum.splits prod.splits)
      (metis fst_conv pollJobStatus_data_customTag)+
qed (auto simp: handleFileUpload_def handleTagChange_def handleModelChange_def
    handleButtonClick_def handleSubmit_def handleSubmit_settled_def handleSubmit_catch_def
    processAnother_def resetState_def Let_def split: option.splits fileType.splits sum.splits)

lemma sanitized_chars:
  "c \<in> set (replace_non_alnum v ''_'') \<Longrightarrow> c \<in> alphanumerics \<or> c = CHR ''_''"
  by (auto simp: replace_underscore_map split: if_splits)

text \<open>The results are never shown while \<open>processing\<close> holds.\<close>

lemma step_flags:
  assumes "showResults st \<longrightarrow> \<not> processing st"
  shows "showResults (step pf st ev) \<longrightarrow> \<not> processing (step pf st ev)"
proof (cases ev)
  case (PollSettled data r)
  have "showResults (fst (pollJobStatus_data pf d st)) \<longrightarrow> \<not> processing (fst (pollJobStatus_data pf d st))" for d
    using assms by (rule pollJobStatus_data_flags)
  then show ?thesis using assms PollSettled
    by (auto simp: pollJobStatus_def interval_callback_def split: sum.splits prod.splits)
      (metis fst_conv)+
qed (use assms in \<open>auto simp: handleFileUpload_def handleTagChange_def handleModelChange_def
    handleButtonClick_def handleSubmit_def handleSubmit_settled_def handleSubmit_catch_def
    processAnother_def resetState_def Let_def split: option.splits fileType.splits sum.splits\<close>)

lemma run_flags: "showResults (run pf evs) \<longrightarrow> \<not> processing (run pf evs)"
proof (induction evs rule: rev_induct)
  case Nil
  then show ?case by (simp add: run_def mount_def)
next
  case (snoc ev evs)
  then show ?case unfolding run_snoc by (rule step_flags)
qed

lemma completed_run_state:
  "run parseFloat_number completed_run =
     \<lparr> ankiFile = Some \<lparr> name = ''deck.apkg'', file_size = 2048 \<rparr>,
       studyMaterial = Some \<lparr> name = ''notes.pdf'', file_size = 4096 \<rparr>,
       processing = False, progress = JSNumber (Finite 0), error = None,
       success = Some ''Processing completed successfully!'', estimatedTime = JSNull,
       jobId = Some ''job-1'', currentPhase = Some ''Initializing'', customTag = ''bio_101'',
       selectedModel = ''text-embedding-3-large'',
       processingResults = Some (empty_body\<lparr> task_id := Some ''job-1'',
         statistics := Some \<lparr> total_cards = 3, high_relevance = 1, medium_relevance = 1,
                               low_relevance = 1 \<rparr> \<rparr>),
       showResults = True \<rparr>"
  by (simp add: run_def completed_run_def mount_def handleModelChange_def handleFileUpload_def
      endsWith_def handleTagChange_def alnum_class_def in_range_def handleButtonClick_def
      results_download_url_def truthy_str_def handleSubmit_def handleSubmit_settled_def ok_def
      json_response_def empty_body_def interval_callback_def pollJobStatus_def
      pollJobStatus_data_def Let_def)

text \<open>
  Claim C10. In every state of \<open>App.tsx\<close> that a sequence of events reaches from the state
  at mount, the tag prefix consists of letters, digits and underscores only.
\<close>

theorem tag_prefix_invariant:
  "\<forall>c \<in> set (customTag (run pf evs)). c \<in> alphanumerics \<or> c = CHR ''_''"
proof (induction evs rule: rev_induct)
  case Nil
  then show ?case by (simp add: run_def mount_def)
next
  case (snoc ev evs)
  from step_customTag [of pf "run pf evs" ev] show ?case
  proof (elim disjE exE)
    assume "customTag (step pf (run pf evs) ev) = customTag (run pf evs)"
    with snoc.IH show ?thesis by (simp add: run_snoc)
  next
    assume "customTag (step pf (run pf evs) ev) = []"
    then show ?thesis by (simp add: run_snoc)
  next
    fix v assume "customTag (step pf (run pf evs) ev) = replace_non_alnum v ''_''"
    then show ?thesis using sanitized_chars [of _ v] by (simp add: run_snoc)
  qed
qed

theorem tag_prefix_invariant_witness:
  "CHR ''b'' \<in> set (customTag (run parseFloat_number completed_run)) \<and> CHR ''b'' \<in> alphanumerics"
proof -
  have m: "CHR ''b'' \<in> set (customTag (run parseFloat_number completed_run))"
    by (simp add: completed_run_state)
  with tag_prefix_invariant [of parseFloat_number completed_run]
  have "CHR ''b'' \<in> alphanumerics \<or> CHR ''b'' = CHR ''_''" by blast
  with m show ?thesis by simp
qed

text \<open>
  Claim C8, as amended. In every reachable state of \<open>App.tsx\<close> in which the results panel
  is rendered, the button ``Process Another Deck'' leaves the component in the state at
  mount except for the selected embedding model, which keeps its value: both files, the
  error and success messages, the estimated time, the job identifier, the phase and the
  result data are null, the progress is 0, the tag prefix is empty, the results are hidden
  and \<open>processing\<close> is false.
\<close>

theorem reset_after_completion:
  assumes "results_rendered (run pf evs)"
  shows "step pf (run pf evs) ProcessAnotherClick
           = mount\<lparr> selectedModel := selectedModel (run pf evs) \<rparr>"
proof -
  from assms have "showResults (run pf evs)" by (simp add: results_rendered_def)
  with run_flags [of pf evs] have "\<not> processing (run pf evs)" by simp
  then have "processAnother (run pf evs) = mount\<lparr> selectedModel := selectedModel (run pf evs) \<rparr>"
    by (simp add: processAnother_def resetState_def mount_def)
  with assms show ?thesis by simp
qed

text \<open>
  The claim as stated fails: after a run in which the user had picked another model, the
  state after the reset is not the state at mount.
\<close>

theorem reset_after_completion_counterexample:
  "results_rendered (run parseFloat_number completed_run) \<and>
   step parseFloat_number (run parseFloat_number completed_run) ProcessAnotherClick \<noteq> mount"
  by (simp add: completed_run_state results_rendered_def results_statistics_def empty_body_def
      processAnother_def resetState_def mount_def)

theorem reset_after_completion_witness:
  "results_rendered (run parseFloat_number completed_run) \<and>
   step parseFloat_number (run parseFloat_number completed_run) ProcessAnotherClick
     = mount\<lparr> selectedModel := ''text-embedding-3-large'' \<rparr>"
proof -
  have r: "results_rendered (run parseFloat_number completed_run)"
    by (simp add: completed_run_state results_rendered_def results_statistics_def empty_body_def)
  from reset_after_completion [OF r] show ?thesis using r by (simp add: completed_run_state)
qed

section \<open>Properties of the embedding scatter plot\<close>

text \<open>
  Claim C9, as amended. The reference areas are drawn from the thresholds 0.8 and 0.5 as
  the zones 80 to 100, 50 to 80 and 0 to 50. When the data is not empty, every card is
  plotted at \<open>x = y = z = similarity * 100\<close> with its identifier, band and similarity
  unchanged, and one more point follows the cards and is drawn in the document series:
  the document point, of similarity 1 and \<open>x = y = z = 100\<close>. When the data is missing or empty, nothing is plotted, the
  document point included. Products are taken in the reals.
\<close>

theorem scatter_plot_points:
  "THRESHOLDS_high = 0.8 \<and> THRESHOLDS_medium = 0.5 \<and>
   renderReferenceAreas = [(80, 100, High), (50, 80, Medium), (0, 50, Low)] \<and>
   (ps \<noteq> [] \<longrightarrow>
      length (processedData emb (Some ps)) = Suc (length ps) \<and>
      (\<forall>i < length ps.
         point_x (processedData emb (Some ps) ! i) = Some (similarity (ps ! i) * 100) \<and>
         point_y (processedData emb (Some ps) ! i) = Some (similarity (ps ! i) * 100) \<and>
         point_z (processedData emb (Some ps) ! i) = Some (similarity (ps ! i) * 100) \<and>
         similarity (processedData emb (Some ps) ! i) = similarity (ps ! i) \<and>
         relevance (processedData emb (Some ps) ! i) = relevance (ps ! i) \<and>
         cardId (processedData emb (Some ps) ! i) = cardId (ps ! i)) \<and>
      last (processedData emb (Some ps)) = documentPoint emb \<and>
      documentPoint emb \<in> set (scatter_data Document (processedData emb (Some ps))) \<and>
      similarity (documentPoint emb) = 1 \<and>
      point_x (documentPoint emb) = Some 100 \<and> point_y (documentPoint emb) = Some 100 \<and>
      point_z (documentPoint emb) = Some 100 \<and> relevance (documentPoint emb) = Document) \<and>
   processedData emb None = [] \<and> processedData emb (Some []) = []"
proof -
  have areas: "renderReferenceAreas = [(80, 100, High), (50, 80, Medium), (0, 50, Low)]"
    "THRESHOLDS_high = 0.8" "THRESHOLDS_medium = 0.5"
    by (simp_all add: renderReferenceAreas_def THRESHOLDS_high_def THRESHOLDS_medium_def)
  have doc: "similarity (documentPoint emb) = 1" "point_x (documentPoint emb) = Some 100"
    "point_y (documentPoint emb) = Some 100" "point_z (documentPoint emb) = Some 100"
    "relevance (documentPoint emb) = Document"
    by (simp_all add: documentPoint_def)
  have empty: "processedData emb None = []" "processedData emb (Some []) = []"
    by (simp_all add: processedData_def)
  have pts: "processedData emb (Some ps) =
      map (\<lambda>point. point\<lparr> point_x := Some (similarity point * 100),
                          point_y := Some (similarity point * 100),
                          point_z := Some (similarity point * 100) \<rparr>) ps @ [documentPoint emb]"
    if "ps \<noteq> []"
    using that by (simp add: processedData_def)
  show ?thesis
  proof (cases "ps = []")
    case True
    with areas empty show ?thesis by simp
  next
    case False
    from pts [OF False] have "\<forall>i < length ps.
         point_x (processedData emb (Some ps) ! i) = Some (similarity (ps ! i) * 100) \<and>
         point_y (processedData emb (Some ps) ! i) = Some (similarity (ps ! i) * 100) \<and>
         point_z (processedData emb (Some ps) ! i) = Some (similarity (ps ! i) * 100) \<and>
         similarity (processedData emb (Some ps) ! i) = similarity (ps ! i) \<and>
         relevance (processedData emb (Some ps) ! i) = relevance (ps ! i) \<and>
         cardId (processedData emb (Some ps) ! i) = cardId (ps ! i)"
      by (simp add: nth_append)
    moreover from pts [OF False] have "length (processedData emb (Some ps)) = Suc (length ps)"
      "last (processedData emb (Some ps)) = documentPoint emb"
      "documentPoint emb \<in> set (scatter_data Document (processedData emb (Some ps)))"
      by (simp_all add: scatter_data_def documentPoint_def)
    ultimately show ?thesis using areas doc empty by simp
  qed
qed

text \<open>The claim as stated fails on empty data: no document point is added.\<close>

theorem scatter_plot_points_counterexample:
  "documentPoint [] \<notin> set (processedData [] (Some []))"
  by (simp add: processedData_def)

theorem scatter_plot_points_witness:
  "[\<lparr> cardId = ''c1'', relevance = Medium, embedding = [], similarity = 0.6,
       point_x = None, point_y = None, point_z = None \<rparr>] \<noteq> [] \<and>
   (0::nat) < length [\<lparr> cardId = ''c1'', relevance = Medium, embedding = [], similarity = 0.6,
       point_x = None, point_y = None, point_z = None \<rparr>] \<and>
   point_x (processedData [] (Some [\<lparr> cardId = ''c1'', relevance = Medium, embedding = [],
       similarity = 0.6, point_x = None, point_y = None, point_z = None \<rparr>]) ! 0) = Some 60 \<and>
   last (processedData [] (Some [\<lparr> cardId = ''c1'', relevance = Medium, embedding = [],
       similarity = 0.6, point_x = None, point_y = None, point_z = None \<rparr>])) = documentPoint []"
  using scatter_plot_points [of "[\<lparr> cardId = ''c1'', relevance = Medium, embedding = [],
       similarity = 0.6, point_x = None, point_y = None, point_z = None \<rparr>]" "[]"]
  by simp

end
